theory Spec2Isabelle
  imports Main "HOL-Library.AList" "HOL-Library.Word"
begin

section \<open>VM versions, modes and test-set identifiers\<close>

text \<open>
  The generator of \<^verbatim>\<open>bch-vmb-test-utils.ts\<close> expands compact test definitions
  into test vectors and partitions them by test set. The string-literal union types of
  the source are finite enumerations, so they are datatypes here, each with the function
  that renders the string the source uses.
\<close>

datatype vm_version =
    V2021 | V2022 | Chip_cashtokens | Chip_limits | Chip_loops | Chip_minimalbool
  | Chip_p2sh32 | Chip_strict_checkmultisig | Chip_zce


datatype test_set_type = Invalid | Nonstandard | Standard


text \<open>\<^verbatim>\<open>TestSetIdBCH\<close> is the template type \<^verbatim>\<open>${VmVersionBCH}_${TestSetType}\<close>.\<close>

type_synonym test_set_id = "vm_version \<times> test_set_type"


text \<open>The \<^verbatim>\<open>mode\<close> of a \<^verbatim>\<open>TestPlan\<close> entry: \<^verbatim>\<open>'nonP2SH' | 'P2SH20' | 'P2SH32'\<close>.\<close>

datatype plan_mode = NonP2SH | P2SH20 | P2SH32

fun plan_mode_string :: "plan_mode \<Rightarrow> string" where
  "plan_mode_string NonP2SH = ''nonP2SH''"
| "plan_mode_string P2SH20 = ''P2SH20''"
| "plan_mode_string P2SH32 = ''P2SH32''"

record plan_item =
  mode :: plan_mode
  sets :: "test_set_id list"

type_synonym test_plan = "plan_item list"

section \<open>The table of supported overrides and the plan resolver\<close>

text \<open>
  \<^verbatim>\<open>supportedTestSetOverridesBCH\<close> is an object literal with the index signature
  \<^verbatim>\<open>{ [joinedList: string]: TestPlan }\<close>. It is the association list of its own
  properties, in the order of the source; a read \<^verbatim>\<open>table[key]\<close> is \<open>map_of\<close>, and
  \<open>None\<close> is JavaScript's \<^verbatim>\<open>undefined\<close>. The model follows the declared type of
  the table: the names every JavaScript object inherits from \<^verbatim>\<open>Object.prototype\<close>
  (\<^verbatim>\<open>constructor\<close>, \<^verbatim>\<open>toString\<close>, ...) are not test-set override labels and are
  outside it.
\<close>

definition supportedTestSetOverridesBCH :: "(string \<times> test_plan) list" where
  "supportedTestSetOverridesBCH = [
    ('''', [
      \<lparr>mode = NonP2SH, sets = [(V2021, Nonstandard), (V2022, Nonstandard)]\<rparr>,
      \<lparr>mode = P2SH20, sets = [(V2021, Standard), (V2022, Standard)]\<rparr>]),
    (''2021_invalid'', [
      \<lparr>mode = NonP2SH, sets = [(V2021, Invalid), (V2022, Nonstandard)]\<rparr>,
      \<lparr>mode = P2SH20, sets = [(V2021, Invalid), (V2022, Standard)]\<rparr>]),
    (''2021_invalid,2022_nonstandard'', [
      \<lparr>mode = NonP2SH, sets = [(V2021, Invalid), (V2022, Nonstandard)]\<rparr>,
      \<lparr>mode = P2SH20, sets = [(V2021, Invalid), (V2022, Nonstandard)]\<rparr>]),
    (''2021_invalid,2022_nonstandard,p2sh_ignore'', [
      \<lparr>mode = NonP2SH, sets = [(V2021, Invalid), (V2022, Nonstandard)]\<rparr>]),
    (''2021_invalid,nonP2sh20_invalid'', [
      \<lparr>mode = NonP2SH, sets = [(V2021, Invalid), (V2022, Invalid)]\<rparr>,
      \<lparr>mode = P2SH20, sets = [(V2021, Invalid), (V2022, Standard)]\<rparr>]),
    (''2021_invalid,nonP2sh_invalid'', [
      \<lparr>mode = NonP2SH, sets = [(V2021, Invalid), (V2022, Invalid)]\<rparr>,
      \<lparr>mode = P2SH20, sets = [(V2021, Invalid), (V2022, Standard)]\<rparr>]),
    (''2021_invalid,p2sh_ignore'', [
      \<lparr>mode = NonP2SH, sets = [(V2021, Invalid), (V2022, Nonstandard)]\<rparr>]),
    (''2021_invalid,p2sh_invalid'', [
      \<lparr>mode = NonP2SH, sets = [(V2021, Invalid), (V2022, Nonstandard)]\<rparr>,
      \<lparr>mode = P2SH20, sets = [(V2021, Invalid), (V2022, Invalid)]\<rparr>]),
    (''invalid'', [
      \<lparr>mode = NonP2SH, sets = [(V2021, Invalid), (V2022, Invalid)]\<rparr>,
      \<lparr>mode = P2SH20, sets = [(V2021, Invalid), (V2022, Invalid)]\<rparr>]),
    (''invalid,2022_nonP2sh_nonstandard'', [
      \<lparr>mode = NonP2SH, sets = [(V2021, Invalid), (V2022, Nonstandard)]\<rparr>,
      \<lparr>mode = P2SH20, sets = [(V2021, Invalid), (V2022, Invalid)]\<rparr>]),
    (''invalid,2022_p2sh_standard'', [
      \<lparr>mode = NonP2SH, sets = [(V2021, Invalid), (V2022, Invalid)]\<rparr>,
      \<lparr>mode = P2SH20, sets = [(V2021, Invalid), (V2022, Standard)]\<rparr>]),
    (''invalid,nonP2sh_nonstandard'', [
      \<lparr>mode = NonP2SH, sets = [(V2021, Nonstandard), (V2022, Nonstandard)]\<rparr>,
      \<lparr>mode = P2SH20, sets = [(V2021, Invalid), (V2022, Invalid)]\<rparr>]),
    (''invalid,p2sh_ignore'', [
      \<lparr>mode = NonP2SH, sets = [(V2021, Invalid), (V2022, Invalid)]\<rparr>]),
    (''nonstandard'', [
      \<lparr>mode = NonP2SH, sets = [(V2021, Nonstandard), (V2022, Nonstandard)]\<rparr>,
      \<lparr>mode = P2SH20, sets = [(V2021, Nonstandard), (V2022, Nonstandard)]\<rparr>]),
    (''nonstandard,p2sh_invalid'', [
      \<lparr>mode = NonP2SH, sets = [(V2021, Nonstandard), (V2022, Nonstandard)]\<rparr>,
      \<lparr>mode = P2SH20, sets = [(V2021, Invalid), (V2022, Invalid)]\<rparr>])]"

text \<open>\<^verbatim>\<open>Array.prototype.join\<close> on an array of strings.\<close>

fun join :: "string \<Rightarrow> string list \<Rightarrow> string" where
  "join sep [] = []"
| "join sep [x] = x"
| "join sep (x # y # ys) = x @ sep @ join sep (y # ys)"

definition defaultShortIdLength :: int where
  "defaultShortIdLength = 5"

text \<open>
  \<^verbatim>\<open>planTestsBCH = (labels?) => supportedTestSetOverridesBCH[(labels ?? []).join(',')]!\<close>.
  The optional argument is an \<open>option\<close>; the non-null assertion \<^verbatim>\<open>!\<close> has no
  effect at run time, so the result is still an \<open>option\<close>.
\<close>

definition joinedLabels :: "string list option \<Rightarrow> string" where
  "joinedLabels labels = join '','' (case labels of None \<Rightarrow> [] | Some ls \<Rightarrow> ls)"

definition planTestsBCH :: "string list option \<Rightarrow> test_plan option" where
  "planTestsBCH labels = map_of supportedTestSetOverridesBCH (joinedLabels labels)"

section \<open>The authentication template built for a test definition\<close>

text \<open>
  JavaScript objects used as dictionaries are maps from property names. An object spread
  \<^verbatim>\<open>{ ...a, k: v }\<close> is \<open>a ++ [k \<mapsto> v]\<close>: the properties written after the spread
  replace those of \<open>a\<close>, and spreading \<^verbatim>\<open>undefined\<close> adds nothing.
\<close>

record template_script =
  lockingType :: "string option"
  script :: string
  unlocks :: "string option"

type_synonym template_scripts = "string \<rightharpoonup> template_script"

text \<open>
  A scenario is an object whose property \<^verbatim>\<open>extends\<close> is a string; the values of its
  other properties (data, transaction, source outputs) are left abstract as \<open>'v\<close>.
\<close>

datatype 'v scenario_property = StringValue string | OtherValue 'v

type_synonym 'v scenario = "string \<rightharpoonup> 'v scenario_property"

record 'v authentication_template =
  entities :: "string \<rightharpoonup> (string \<rightharpoonup> string)"
  scenarios :: "string \<rightharpoonup> 'v scenario"
  scripts :: template_scripts
  supported :: "string list"
  version :: int

text \<open>
  \<^verbatim>\<open>VmbTestDefinition\<close> is a tuple, and the source destructures it:
  \<^verbatim>\<open>[unlockingScript, redeemOrLockingScript, testDescription, testSetOverrideLabels,
  scenario, additionalScripts]\<close>, the last three optional.
\<close>

type_synonym 'v vmb_test_definition =
  "string \<times> string \<times> string \<times> string list option \<times> 'v scenario option
    \<times> template_scripts option"

definition spread :: "('k \<rightharpoonup> 'a) option \<Rightarrow> ('k \<rightharpoonup> 'a)" where
  "spread obj = (case obj of None \<Rightarrow> Map.empty | Some m \<Rightarrow> m)"

definition scenarioId :: string where
  "scenarioId = ''test''"

text \<open>\<^verbatim>\<open>{ extends: 'vmb_default', ...scenarioOverride }\<close>\<close>

definition scenarioDefinition :: "'v scenario option \<Rightarrow> 'v scenario" where
  "scenarioDefinition scenarioOverride =
     [''extends'' \<mapsto> StringValue ''vmb_default''] ++ spread scenarioOverride"

text \<open>The script entries written after \<^verbatim>\<open>...additionalScripts\<close>, in source order.\<close>

definition builtinScripts :: "string \<Rightarrow> string \<Rightarrow> (string \<times> template_script) list" where
  "builtinScripts unlockingScript redeemOrLockingScript = [
     (''lockEmptyP2sh20'',
        \<lparr>lockingType = Some ''p2sh20'', script = '''', unlocks = None\<rparr>),
     (''lockP2pkh'',
        \<lparr>lockingType = Some ''standard'',
         script = ''OP_DUP OP_HASH160 <$(<key1.public_key> OP_HASH160)> OP_EQUALVERIFY OP_CHECKSIG'',
         unlocks = None\<rparr>),
     (''lockP2sh20'',
        \<lparr>lockingType = Some ''p2sh20'', script = redeemOrLockingScript, unlocks = None\<rparr>),
     (''lockStandard'',
        \<lparr>lockingType = Some ''standard'', script = redeemOrLockingScript, unlocks = None\<rparr>),
     (''unlockEmptyP2sh20'',
        \<lparr>lockingType = None, script = ''<1>'', unlocks = Some ''lockEmptyP2sh20''\<rparr>),
     (''unlockP2pkh'',
        \<lparr>lockingType = None,
         script = ''<key1.schnorr_signature.corresponding_output_single_input> <key1.public_key>'',
         unlocks = Some ''lockP2pkh''\<rparr>),
     (''unlockP2sh20'',
        \<lparr>lockingType = None, script = unlockingScript, unlocks = Some ''lockP2sh20''\<rparr>),
     (''unlockStandard'',
        \<lparr>lockingType = None, script = unlockingScript, unlocks = Some ''lockStandard''\<rparr>),
     (''vmbTestNullData'',
        \<lparr>lockingType = Some ''standard'',
         script = ''OP_RETURN <'' @ [CHR 0x22] @ ''vmb_test'' @ [CHR 0x22] @ ''>'',
         unlocks = None\<rparr>)]"

text \<open>
  The object literal passed to \<^verbatim>\<open>authenticationTemplateToCompilerConfiguration\<close>
  (lines 264 to 300). \<open>slot1Scenario\<close> is imported from the mixins module and is a
  parameter.
\<close>

definition vmbTestTemplate ::
  "'v scenario \<Rightarrow> 'v vmb_test_definition \<Rightarrow> 'v authentication_template" where
  "vmbTestTemplate slot1Scenario testDefinition =
     (case testDefinition of
        (unlockingScript, redeemOrLockingScript, testDescr, testSetOverrideLabels,
         scenarioOverride, additionalScripts) \<Rightarrow>
        \<lparr>entities = [''tester'' \<mapsto> [''key1'' \<mapsto> ''HdKey'']],
         scenarios = [scenarioId \<mapsto> scenarioDefinition scenarioOverride,
                      ''vmb_default'' \<mapsto> slot1Scenario],
         scripts = spread additionalScripts
                     ++ map_of (builtinScripts unlockingScript redeemOrLockingScript),
         supported = [''BCH_2022_05''],
         version = 0\<rparr>)"

section \<open>The external library\<close>

text \<open>
  The compiler, the encoders, the hash and the bech32 functions are imported from
  modules that the specification treats as black boxes; they are the fields of the
  record \<open>libauth\<close>, and every theorem holds for any such record. The result of
  \<^verbatim>\<open>compiler.generateScenario\<close> is a string (a compilation error), an object whose
  \<^verbatim>\<open>scenario\<close> is a string (a scenario error), or an object whose
  \<^verbatim>\<open>scenario.program\<close> holds the transaction, the source outputs and the input
  index.
\<close>

type_synonym bin = "8 word list"

record ('tx, 'out) program =
  transaction :: 'tx
  sourceOutputs :: 'out
  program_inputIndex :: int

datatype ('tx, 'out) scenario_generation =
    CompilationError string
  | ScenarioError string
  | Generated "('tx, 'out) program"

record scenario_request =
  debug :: bool
  request_scenarioId :: string
  unlockingScriptId :: string

record ('v, 'cfg, 'cmp, 'tx, 'out) libauth =
  slot1Scenario :: "'v scenario"
  authenticationTemplateToCompilerConfiguration :: "'v authentication_template \<Rightarrow> 'cfg"
  createCompilerBCH :: "'cfg \<Rightarrow> 'cmp"
  generateScenario :: "'cmp \<Rightarrow> scenario_request \<Rightarrow> ('tx, 'out) scenario_generation"
  encodeTransaction :: "'tx \<Rightarrow> bin"
  encodeTransactionOutputs :: "'out \<Rightarrow> bin"
  sha256_hash :: "bin \<Rightarrow> bin"
  regroupBits :: "bin \<Rightarrow> nat \<Rightarrow> nat \<Rightarrow> nat list"
  encodeBech32 :: "nat list \<Rightarrow> string"
  binToHex :: "bin \<Rightarrow> string"

text \<open>
  Modelled from the spec: \<^verbatim>\<open>flattenBinArray\<close> of \<^verbatim>\<open>format.js\<close> is not among
  the sources; the short identifier hashes the encoded transaction and the encoded source
  outputs, one after the other, so it is the concatenation of the byte arrays.
\<close>

definition flattenBinArray :: "bin list \<Rightarrow> bin" where
  "flattenBinArray bins = concat bins"

text \<open>
  \<^verbatim>\<open>createCompilerBCH(authenticationTemplateToCompilerConfiguration({...}))\<close>
  (lines 264 to 301).
\<close>

definition vmbTestCompiler ::
  "('v, 'cfg, 'cmp, 'tx, 'out) libauth \<Rightarrow> 'v vmb_test_definition \<Rightarrow> 'cmp" where
  "vmbTestCompiler L testDefinition =
     (let configuration =
            authenticationTemplateToCompilerConfiguration L
              (vmbTestTemplate (slot1Scenario L) testDefinition)
      in createCompilerBCH L configuration)"

section \<open>Expanding a test definition\<close>

text \<open>
  A master test vector is the tuple \<^verbatim>\<open>VmbTestMasterBCH\<close>; \<^verbatim>\<open>VmbTest\<close> is the same
  tuple without \<^verbatim>\<open>testSets\<close>. The optional last element \<^verbatim>\<open>inputIndex\<close> is an
  \<open>option\<close>: \<open>None\<close> when the tuple has no eighth (seventh) element.
\<close>

record vmb_test =
  shortId :: string
  testDescription :: string
  unlockingScriptAsm :: string
  redeemOrLockingScriptAsm :: string
  testTransactionHex :: string
  sourceOutputsHex :: string
  inputIndex :: "int option"

record vmb_test_master = vmb_test +
  testSets :: "test_set_id list"

datatype error = TypeError | Error string

text \<open>
  \<^verbatim>\<open>String.prototype.slice(0, end)\<close> for an integer \<open>end\<close>: a negative end counts
  from the end of the string.
\<close>

definition slice0 :: "string \<Rightarrow> int \<Rightarrow> string" where
  "slice0 s e = (if e < 0 then take (nat (int (length s) + e)) s else take (nat e) s)"

fun unlockingScriptIdOf :: "plan_mode \<Rightarrow> string" where
  "unlockingScriptIdOf P2SH20 = ''unlockP2sh20''"
| "unlockingScriptIdOf P2SH32 = ''unlockP2sh32''"
| "unlockingScriptIdOf NonP2SH = ''unlockStandard''"

definition scenarioRequest :: "plan_item \<Rightarrow> scenario_request" where
  "scenarioRequest planItem =
     \<lparr>debug = True, request_scenarioId = scenarioId,
      unlockingScriptId = unlockingScriptIdOf (mode planItem)\<rparr>"

definition testCaseDescription :: "string \<Rightarrow> string \<Rightarrow> plan_item \<Rightarrow> string" where
  "testCaseDescription groupName testDescr planItem =
     groupName @ '': '' @ testDescr @ '' ('' @ plan_mode_string (mode planItem) @ '')''"

definition generationError :: "string \<Rightarrow> string \<Rightarrow> error" where
  "generationError description msg =
     Error (''Error while generating '' @ [CHR 0x22] @ description @ [CHR 0x22]
            @ '' - '' @ msg)"

definition shortIdOf ::
  "('v, 'cfg, 'cmp, 'tx, 'out) libauth \<Rightarrow> bin \<Rightarrow> bin \<Rightarrow> int \<Rightarrow> string" where
  "shortIdOf L encodedTx encodedSourceOutputs shortIdLength =
     slice0
       (encodeBech32 L
          (regroupBits L (sha256_hash L (flattenBinArray [encodedTx, encodedSourceOutputs]))
             5 8))
       shortIdLength"

text \<open>
  The tuple built from a generated program (lines 326 to 352): the element
  \<^verbatim>\<open>inputIndex\<close> is appended only when it is not \<open>0\<close>.
\<close>

definition masterTestCase ::
  "('v, 'cfg, 'cmp, 'tx, 'out) libauth \<Rightarrow> string \<Rightarrow> string \<Rightarrow> string \<Rightarrow> int
     \<Rightarrow> plan_item \<Rightarrow> ('tx, 'out) program \<Rightarrow> vmb_test_master" where
  "masterTestCase L unlockingScript redeemOrLockingScript description shortIdLength
     planItem p =
     (let encodedTx = encodeTransaction L (transaction p);
          encodedSourceOutputs = encodeTransactionOutputs L (sourceOutputs p)
      in \<lparr>shortId = shortIdOf L encodedTx encodedSourceOutputs shortIdLength,
          testDescription = description,
          unlockingScriptAsm = unlockingScript,
          redeemOrLockingScriptAsm = redeemOrLockingScript,
          testTransactionHex = binToHex L encodedTx,
          sourceOutputsHex = binToHex L encodedSourceOutputs,
          inputIndex =
            (if program_inputIndex p = 0 then None else Some (program_inputIndex p)),
          testSets = sets planItem\<rparr>)"

text \<open>The callback of \<^verbatim>\<open>testGenerationPlan.map\<close> (lines 303 to 353).\<close>

definition generateTestCase ::
  "('v, 'cfg, 'cmp, 'tx, 'out) libauth \<Rightarrow> 'cmp \<Rightarrow> string \<Rightarrow> string \<Rightarrow> string \<Rightarrow> string
     \<Rightarrow> int \<Rightarrow> plan_item \<Rightarrow> error + vmb_test_master" where
  "generateTestCase L compiler unlockingScript redeemOrLockingScript testDescr groupName
     shortIdLength planItem =
     (let description = testCaseDescription groupName testDescr planItem in
      case generateScenario L compiler (scenarioRequest planItem) of
        CompilationError msg \<Rightarrow> Inl (generationError description msg)
      | ScenarioError msg \<Rightarrow> Inl (generationError description msg)
      | Generated p \<Rightarrow>
          Inr (masterTestCase L unlockingScript redeemOrLockingScript description
                 shortIdLength planItem p))"

text \<open>
  \<^verbatim>\<open>Array.prototype.map\<close> with a callback that may throw: the first exception, in
  array order, ends the map.
\<close>

fun mapThrowing :: "('a \<Rightarrow> 'e + 'b) \<Rightarrow> 'a list \<Rightarrow> 'e + 'b list" where
  "mapThrowing f [] = Inr []"
| "mapThrowing f (x # xs) =
     (case f x of
        Inl e \<Rightarrow> Inl e
      | Inr y \<Rightarrow> (case mapThrowing f xs of Inl e \<Rightarrow> Inl e | Inr ys \<Rightarrow> Inr (y # ys)))"

text \<open>
  The default values of the optional parameters \<^verbatim>\<open>groupName = ''\<close> and
  \<^verbatim>\<open>shortIdLength = defaultShortIdLength\<close>: an omitted argument is \<open>None\<close>.
\<close>

definition groupNameOf :: "string option \<Rightarrow> string" where
  "groupNameOf groupNameArg = (case groupNameArg of None \<Rightarrow> '''' | Some g \<Rightarrow> g)"

definition shortIdLengthOf :: "int option \<Rightarrow> int" where
  "shortIdLengthOf shortIdLengthArg =
     (case shortIdLengthArg of None \<Rightarrow> defaultShortIdLength | Some n \<Rightarrow> n)"

text \<open>
  \<^verbatim>\<open>vmbTestDefinitionToVmbTests(testDefinition, groupName = '', shortIdLength =
  defaultShortIdLength)\<close>. When the plan is \<^verbatim>\<open>undefined\<close>, the call
  \<^verbatim>\<open>testGenerationPlan.map\<close> throws a \<^verbatim>\<open>TypeError\<close>.
\<close>

definition vmbTestDefinitionToVmbTests ::
  "('v, 'cfg, 'cmp, 'tx, 'out) libauth \<Rightarrow> 'v vmb_test_definition \<Rightarrow> string option
     \<Rightarrow> int option \<Rightarrow> error + vmb_test_master list" where
  "vmbTestDefinitionToVmbTests L testDefinition groupNameArg shortIdLengthArg =
     (case testDefinition of
        (unlockingScript, redeemOrLockingScript, testDescr, testSetOverrideLabels,
         scenarioOverride, additionalScripts) \<Rightarrow>
        (let groupName = groupNameOf groupNameArg;
             shortIdLength = shortIdLengthOf shortIdLengthArg;
             testGenerationPlan = planTestsBCH testSetOverrideLabels;
             compiler = vmbTestCompiler L testDefinition
         in case testGenerationPlan of
              None \<Rightarrow> Inl TypeError
            | Some plan \<Rightarrow>
                mapThrowing
                  (generateTestCase L compiler unlockingScript redeemOrLockingScript
                     testDescr groupName shortIdLength)
                  plan))"

text \<open>\<^verbatim>\<open>vmbTestGroupToVmbTests\<close>: every definition of a group, with the group's name.\<close>

definition vmbTestGroupToVmbTests ::
  "('v, 'cfg, 'cmp, 'tx, 'out) libauth \<Rightarrow> string \<times> 'v vmb_test_definition list
     \<Rightarrow> error + vmb_test_master list list" where
  "vmbTestGroupToVmbTests L testGroup =
     mapThrowing
       (\<lambda>testDefinition. vmbTestDefinitionToVmbTests L testDefinition (Some (fst testGroup)) None)
       (snd testGroup)"

section \<open>Partitioning the master list\<close>

text \<open>
  The accumulator of the \<^verbatim>\<open>reduce\<close> is an object keyed by test-set id. It is an
  association list in insertion order (the order \<^verbatim>\<open>Object.entries\<close> uses for such
  keys): assigning to an existing key keeps its place, a new key goes last.
\<close>

type_synonym partitioned = "(test_set_id \<times> vmb_test list) list"

definition withoutSets :: "vmb_test_master \<Rightarrow> vmb_test" where
  "withoutSets testCase =
     \<lparr>shortId = shortId testCase,
      testDescription = testDescription testCase,
      unlockingScriptAsm = unlockingScriptAsm testCase,
      redeemOrLockingScriptAsm = redeemOrLockingScriptAsm testCase,
      testTransactionHex = testTransactionHex testCase,
      sourceOutputsHex = sourceOutputsHex testCase,
      inputIndex = (case inputIndex testCase of None \<Rightarrow> None | Some i \<Rightarrow> Some i)\<rparr>"

text \<open>\<^verbatim>\<open>accumulatedTestSets[testSet] ?? []\<close>\<close>

definition testsOfSet :: "partitioned \<Rightarrow> test_set_id \<Rightarrow> vmb_test list" where
  "testsOfSet accumulatedTestSets testSet =
     (case map_of accumulatedTestSets testSet of None \<Rightarrow> [] | Some ts \<Rightarrow> ts)"

text \<open>The body of \<^verbatim>\<open>testSets.forEach\<close>.\<close>

definition addToTestSet :: "vmb_test \<Rightarrow> partitioned \<Rightarrow> test_set_id \<Rightarrow> partitioned" where
  "addToTestSet test accumulatedTestSets testSet =
     AList.update testSet (testsOfSet accumulatedTestSets testSet @ [test])
       accumulatedTestSets"

definition vmbTestPartitionMasterTestList :: "vmb_test_master list \<Rightarrow> partitioned" where
  "vmbTestPartitionMasterTestList masterTestList =
     foldl (\<lambda>accumulatedTestSets testCase.
              foldl (addToTestSet (withoutSets testCase)) accumulatedTestSets
                (testSets testCase))
       [] masterTestList"

section \<open>The generator script\<close>







section \<open>Auxiliary notions for the statements\<close>

text \<open>
  The tests a master entry contributes to the list of a set: one copy of the stripped
  entry for every occurrence of the set's id in its \<^verbatim>\<open>testSets\<close>.
\<close>

definition copiesFor :: "test_set_id \<Rightarrow> vmb_test_master \<Rightarrow> vmb_test list" where
  "copiesFor S t = replicate (count_list (testSets t) S) (withoutSets t)"

definition noEmptySet :: "partitioned \<Rightarrow> bool" where
  "noEmptySet acc = (\<forall>S. map_of acc S \<noteq> Some [])"

text \<open>
  A small instance of the external library, on which the theorems are instantiated: its
  compiler knows the two unlocking scripts of the default plan and fails on any other.
\<close>

definition exampleLibauth :: "(unit, unit, string, bin, bin) libauth" where
  "exampleLibauth =
     \<lparr>slot1Scenario = Map.empty,
      authenticationTemplateToCompilerConfiguration = (\<lambda>_. ()),
      createCompilerBCH = (\<lambda>_. ''compiler''),
      generateScenario = (\<lambda>_ request.
        if unlockingScriptId request = ''unlockStandard''
        then Generated \<lparr>transaction = [1, 2, 3, 4], sourceOutputs = [5, 6, 7], program_inputIndex = 0\<rparr>
        else if unlockingScriptId request = ''unlockP2sh20''
        then Generated \<lparr>transaction = [4], sourceOutputs = [5, 6], program_inputIndex = 1\<rparr>
        else CompilationError ''unknown script''),
      encodeTransaction = (\<lambda>tx. tx),
      encodeTransactionOutputs = (\<lambda>outs. outs),
      sha256_hash = rev,
      regroupBits = (\<lambda>b _ _. map unat b),
      encodeBech32 = map (\<lambda>w. if even w then CHR ''q'' else CHR ''p''),
      binToHex = (\<lambda>b. concat (map (\<lambda>_. ''00'') b))\<rparr>"

definition exampleTests :: "vmb_test_master list" where
  "exampleTests =
     [\<lparr>shortId = ''pqpqp'', testDescription = '': drops (nonP2SH)'',
       unlockingScriptAsm = ''<1>'', redeemOrLockingScriptAsm = ''OP_DROP'',
       testTransactionHex = ''00000000'', sourceOutputsHex = ''000000'',
       inputIndex = None,
       testSets = [(V2021, Nonstandard), (V2022, Nonstandard)]\<rparr>,
      \<lparr>shortId = ''qpq'', testDescription = '': drops (P2SH20)'',
       unlockingScriptAsm = ''<1>'', redeemOrLockingScriptAsm = ''OP_DROP'',
       testTransactionHex = ''00'', sourceOutputsHex = ''0000'',
       inputIndex = Some 1,
       testSets = [(V2021, Standard), (V2022, Standard)]\<rparr>]"

definition otherTests :: "vmb_test_master list" where
  "otherTests =
     [\<lparr>shortId = ''pqpqp'', testDescription = ''grp: other (nonP2SH)'',
       unlockingScriptAsm = ''<2>'', redeemOrLockingScriptAsm = ''OP_NIP'',
       testTransactionHex = ''00000000'', sourceOutputsHex = ''000000'',
       inputIndex = None,
       testSets = [(V2021, Invalid), (V2022, Invalid)]\<rparr>,
      \<lparr>shortId = ''qpq'', testDescription = ''grp: other (P2SH20)'',
       unlockingScriptAsm = ''<2>'', redeemOrLockingScriptAsm = ''OP_NIP'',
       testTransactionHex = ''00'', sourceOutputsHex = ''0000'',
       inputIndex = Some 1,
       testSets = [(V2021, Invalid), (V2022, Invalid)]\<rparr>]"

text \<open>A master entry that lists one set twice, and one with two different sets.\<close>

definition repeatedSetExample :: vmb_test_master where
  "repeatedSetExample =
     \<lparr>shortId = ''qqqqq'', testDescription = ''d'', unlockingScriptAsm = ''<1>'',
      redeemOrLockingScriptAsm = ''OP_DROP'', testTransactionHex = ''00'',
      sourceOutputsHex = ''00'', inputIndex = None,
      testSets = [(V2021, Invalid), (V2021, Invalid)]\<rparr>"

definition masterExample :: vmb_test_master where
  "masterExample =
     \<lparr>shortId = ''ppppp'', testDescription = ''e'', unlockingScriptAsm = ''<1>'',
      redeemOrLockingScriptAsm = ''OP_DROP'', testTransactionHex = ''01'',
      sourceOutputsHex = ''02'', inputIndex = Some 1,
      testSets = [(V2021, Invalid), (Chip_loops, Standard)]\<rparr>"


section \<open>Properties of the table and of the traversals\<close>

lemma table_keys_distinct: "distinct (map fst supportedTestSetOverridesBCH)"
  by (simp add: supportedTestSetOverridesBCH_def)

lemma table_modes:
  "(k, plan) \<in> set supportedTestSetOverridesBCH \<Longrightarrow> item \<in> set plan
     \<Longrightarrow> mode item = NonP2SH \<or> mode item = P2SH20"
  by (auto simp: supportedTestSetOverridesBCH_def)

lemma table_sets_distinct:
  "(k, plan) \<in> set supportedTestSetOverridesBCH \<Longrightarrow> item \<in> set plan
     \<Longrightarrow> distinct (sets item)"
  by (auto simp: supportedTestSetOverridesBCH_def)

lemma planTestsBCH_Some_iff:
  "planTestsBCH labels = Some plan
     \<longleftrightarrow> (joinedLabels labels, plan) \<in> set supportedTestSetOverridesBCH"
  unfolding planTestsBCH_def using table_keys_distinct by (rule map_of_eq_Some_iff)


lemma mapThrowing_Inr_iff:
  "mapThrowing f xs = Inr ys \<longleftrightarrow> list_all2 (\<lambda>x y. f x = Inr y) xs ys"
proof (induction xs arbitrary: ys)
  case Nil
  show ?case by auto
next
  case (Cons x xs)
  show ?case
  proof (cases "f x")
    case (Inl e)
    then show ?thesis by (simp add: list_all2_Cons1)
  next
    case fx: (Inr y)
    show ?thesis
    proof (cases "mapThrowing f xs")
      case (Inl e)
      then have "\<not> list_all2 (\<lambda>x y. f x = Inr y) xs zs" for zs
        using Cons.IH [of zs] by simp
      with Inl fx show ?thesis by (simp add: list_all2_Cons1)
    next
      case (Inr zs)
      then have "list_all2 (\<lambda>x y. f x = Inr y) xs ws \<longleftrightarrow> ws = zs" for ws
        using Cons.IH [of ws] by auto
      with Inr fx show ?thesis by (auto simp: list_all2_Cons1)
    qed
  qed
qed

lemma mapThrowing_total:
  "(\<And>x. x \<in> set xs \<Longrightarrow> \<exists>y. f x = Inr y) \<Longrightarrow> \<exists>ys. mapThrowing f xs = Inr ys"
proof (induction xs)
  case Nil
  show ?case by simp
next
  case (Cons x xs)
  obtain y where "f x = Inr y" using Cons.prems [of x] by auto
  moreover obtain ys where "mapThrowing f xs = Inr ys" using Cons by auto
  ultimately show ?case by simp
qed

lemma mapThrowing_cong:
  "(\<And>x. x \<in> set xs \<Longrightarrow> f x = g x) \<Longrightarrow> mapThrowing f xs = mapThrowing g xs"
  by (induction xs) (auto split: sum.splits)

lemma testsOfSet_addToTestSet:
  "testsOfSet (addToTestSet w acc s) S =
     (if S = s then testsOfSet acc s @ [w] else testsOfSet acc S)"
  by (simp add: testsOfSet_def addToTestSet_def update_conv')

lemma testsOfSet_forEach:
  "testsOfSet (foldl (addToTestSet w) acc ss) S =
     testsOfSet acc S @ replicate (count_list ss S) w"
  by (induction ss arbitrary: acc)
     (auto simp: testsOfSet_addToTestSet replicate_append_same)


lemma testsOfSet_reduce:
  "testsOfSet
     (foldl (\<lambda>a t. foldl (addToTestSet (withoutSets t)) a (testSets t)) acc m) S =
   testsOfSet acc S @ concat (map (copiesFor S) m)"
  by (induction m arbitrary: acc) (auto simp: testsOfSet_forEach copiesFor_def)


lemma noEmptySet_add: "noEmptySet acc \<Longrightarrow> noEmptySet (addToTestSet w acc s)"
  by (simp add: noEmptySet_def addToTestSet_def update_conv')

lemma noEmptySet_forEach: "noEmptySet acc \<Longrightarrow> noEmptySet (foldl (addToTestSet w) acc ss)"
  by (induction ss arbitrary: acc) (auto simp: noEmptySet_add)

lemma noEmptySet_reduce:
  "noEmptySet acc \<Longrightarrow>
     noEmptySet (foldl (\<lambda>a t. foldl (addToTestSet (withoutSets t)) a (testSets t)) acc m)"
  by (induction m arbitrary: acc) (auto simp: noEmptySet_forEach)

lemma noEmptySet_partition: "noEmptySet (vmbTestPartitionMasterTestList m)"
  unfolding vmbTestPartitionMasterTestList_def
  by (rule noEmptySet_reduce) (simp add: noEmptySet_def)

lemma distinct_add: "distinct (map fst acc) \<Longrightarrow> distinct (map fst (addToTestSet w acc s))"
  by (simp add: addToTestSet_def distinct_update)

lemma distinct_forEach:
  "distinct (map fst acc) \<Longrightarrow> distinct (map fst (foldl (addToTestSet w) acc ss))"
  by (induction ss arbitrary: acc) (auto simp: distinct_add)

lemma distinct_partition: "distinct (map fst (vmbTestPartitionMasterTestList m))"
proof -
  have "distinct (map fst acc) \<Longrightarrow>
     distinct (map fst (foldl (\<lambda>a t. foldl (addToTestSet (withoutSets t)) a (testSets t)) acc m))"
    for acc
    by (induction m arbitrary: acc) (auto simp: distinct_forEach)
  then show ?thesis by (simp add: vmbTestPartitionMasterTestList_def)
qed

lemma partition_lookup:
  "map_of (vmbTestPartitionMasterTestList m) S =
     (if concat (map (copiesFor S) m) = [] then None
      else Some (concat (map (copiesFor S) m)))"
proof -
  let ?p = "vmbTestPartitionMasterTestList m"
  have t: "testsOfSet ?p S = concat (map (copiesFor S) m)"
    using testsOfSet_reduce [of "[]" m S]
    by (simp add: vmbTestPartitionMasterTestList_def testsOfSet_def)
  have n: "map_of ?p S \<noteq> Some []"
    using noEmptySet_partition [of m] unfolding noEmptySet_def by blast
  show ?thesis
    using t n by (cases "map_of ?p S") (auto simp: testsOfSet_def)
qed

lemma count_list_distinct:
  "distinct xs \<Longrightarrow> count_list xs x = (if x \<in> set xs then 1 else 0)"
  by (induction xs) auto

lemma copies_distinct:
  "distinct (testSets t) \<Longrightarrow>
     copiesFor S t = (if S \<in> set (testSets t) then [withoutSets t] else [])"
  by (simp add: copiesFor_def count_list_distinct)

lemma concat_copies_distinct:
  "(\<And>t. t \<in> set m \<Longrightarrow> distinct (testSets t)) \<Longrightarrow>
     concat (map (copiesFor S) m) = map withoutSets (filter (\<lambda>t. S \<in> set (testSets t)) m)"
  by (induction m) (auto simp: copies_distinct)


lemma generateTestCase_Inr_iff:
  "generateTestCase L c u r d g n item = Inr t \<longleftrightarrow>
     (\<exists>p. generateScenario L c (scenarioRequest item) = Generated p
        \<and> t = masterTestCase L u r (testCaseDescription g d item) n item p)"
  by (auto simp: generateTestCase_def Let_def split: scenario_generation.splits)


lemma vmbTests_unfold:
  "vmbTestDefinitionToVmbTests L (u, r, d, labels, scn, add) g n =
     (case planTestsBCH labels of
        None \<Rightarrow> Inl TypeError
      | Some plan \<Rightarrow>
          mapThrowing
            (generateTestCase L (vmbTestCompiler L (u, r, d, labels, scn, add)) u r d
               (groupNameOf g) (shortIdLengthOf n))
            plan)"
  by (simp add: vmbTestDefinitionToVmbTests_def Let_def)

lemma vmbTests_Inr_iff:
  "vmbTestDefinitionToVmbTests L (u, r, d, labels, scn, add) g n = Inr tests \<longleftrightarrow>
     (\<exists>plan. planTestsBCH labels = Some plan \<and>
        list_all2
          (\<lambda>item t. \<exists>p.
             generateScenario L (vmbTestCompiler L (u, r, d, labels, scn, add))
               (scenarioRequest item) = Generated p
             \<and> t = masterTestCase L u r (testCaseDescription (groupNameOf g) d item)
                   (shortIdLengthOf n) item p)
          plan tests)"
  by (simp add: vmbTests_unfold mapThrowing_Inr_iff generateTestCase_Inr_iff
        split: option.splits)

section \<open>The plan resolver\<close>




section \<open>Generated test vectors\<close>

lemma vmbTests_nth:
  assumes "vmbTestDefinitionToVmbTests L (u, r, d, labels, scn, add) g n = Inr tests"
    and "i < length tests"
  shows "\<exists>plan p. planTestsBCH labels = Some plan \<and> length plan = length tests
     \<and> generateScenario L (vmbTestCompiler L (u, r, d, labels, scn, add))
           (scenarioRequest (plan ! i)) = Generated p
     \<and> tests ! i = masterTestCase L u r (testCaseDescription (groupNameOf g) d (plan ! i))
           (shortIdLengthOf n) (plan ! i) p"
proof -
  from assms(1) obtain plan where plan: "planTestsBCH labels = Some plan"
    and all2: "list_all2
          (\<lambda>item t. \<exists>p.
             generateScenario L (vmbTestCompiler L (u, r, d, labels, scn, add))
               (scenarioRequest item) = Generated p
             \<and> t = masterTestCase L u r (testCaseDescription (groupNameOf g) d item)
                   (shortIdLengthOf n) item p)
          plan tests"
    unfolding vmbTests_Inr_iff by blast
  from all2 have len: "length plan = length tests"
    by (rule list_all2_lengthD)
  from all2 assms(2) len have "\<exists>p.
             generateScenario L (vmbTestCompiler L (u, r, d, labels, scn, add))
               (scenarioRequest (plan ! i)) = Generated p
             \<and> tests ! i = masterTestCase L u r (testCaseDescription (groupNameOf g) d (plan ! i))
                   (shortIdLengthOf n) (plan ! i) p"
    by (simp add: list_all2_conv_all_nth)
  with plan len show ?thesis by blast
qed

lemma masterTestCase_fields:
  "testSets (masterTestCase L u r descr n item p) = sets item"
  "testDescription (masterTestCase L u r descr n item p) = descr"
  "unlockingScriptAsm (masterTestCase L u r descr n item p) = u"
  "redeemOrLockingScriptAsm (masterTestCase L u r descr n item p) = r"
  "inputIndex (masterTestCase L u r descr n item p) =
     (if program_inputIndex p = 0 then None else Some (program_inputIndex p))"
  "shortId (masterTestCase L u r descr n item p) =
     slice0
       (encodeBech32 L
          (regroupBits L
             (sha256_hash L
                (encodeTransaction L (transaction p)
                 @ encodeTransactionOutputs L (sourceOutputs p)))
             5 8))
       n"
  by (simp_all add: masterTestCase_def Let_def shortIdOf_def flattenBinArray_def)


text \<open>
  Claim C1: when the labels of a test definition join to a key of the table and every call
  of \<^verbatim>\<open>compiler.generateScenario\<close> for the plan succeeds,
  \<^verbatim>\<open>vmbTestDefinitionToVmbTests\<close> returns one test vector per entry of the plan,
  in plan order; the vector of entry \<open>i\<close> has the sets of that entry as its
  \<^verbatim>\<open>testSets\<close>, and its description is the group name, the definition's
  description and the entry's mode in parentheses.
\<close>
theorem one_test_per_plan_item:
  assumes plan: "planTestsBCH labels = Some plan"
    and ok: "\<forall>item\<in>set plan. \<exists>p.
       generateScenario L (vmbTestCompiler L (u, r, d, labels, scn, add))
         (scenarioRequest item) = Generated p"
  shows "\<exists>tests.
     vmbTestDefinitionToVmbTests L (u, r, d, labels, scn, add) g n = Inr tests
     \<and> length tests = length plan
     \<and> (\<forall>i<length plan.
          testSets (tests ! i) = sets (plan ! i)
          \<and> testDescription (tests ! i) =
              groupNameOf g @ '': '' @ d @ '' ('' @ plan_mode_string (mode (plan ! i)) @ '')'')"
proof -
  let ?f = "generateTestCase L (vmbTestCompiler L (u, r, d, labels, scn, add)) u r d
               (groupNameOf g) (shortIdLengthOf n)"
  have "\<exists>y. ?f item = Inr y" if "item \<in> set plan" for item
    using ok that by (auto simp: generateTestCase_Inr_iff)
  then obtain tests where m: "mapThrowing ?f plan = Inr tests"
    using mapThrowing_total [of plan ?f] by blast
  with plan have run: "vmbTestDefinitionToVmbTests L (u, r, d, labels, scn, add) g n = Inr tests"
    by (simp add: vmbTests_unfold)
  have len: "length tests = length plan"
    using vmbTests_nth [OF run] m by (auto simp: mapThrowing_Inr_iff dest: list_all2_lengthD)
  have "testSets (tests ! i) = sets (plan ! i)
          \<and> testDescription (tests ! i) =
              groupNameOf g @ '': '' @ d @ '' ('' @ plan_mode_string (mode (plan ! i)) @ '')''"
    if "i < length plan" for i
  proof -
    from that len have "i < length tests" by simp
    from vmbTests_nth [OF run this] plan show ?thesis
      by (auto simp: masterTestCase_fields testCaseDescription_def)
  qed
  with run len show ?thesis by blast
qed


text \<open>
  Claim C6: two generated test vectors, of any two definitions, group names and plans but
  with the same \<^verbatim>\<open>shortIdLength\<close>, whose encoded transactions are equal and whose
  encoded source outputs are equal, have the same \<^verbatim>\<open>shortId\<close>.
\<close>
theorem shortId_depends_on_encodings_only:
  assumes "vmbTestDefinitionToVmbTests L (u, r, d, labels, scn, add) g n = Inr tests"
    and "vmbTestDefinitionToVmbTests L (u', r', d', labels', scn', add') g' n' = Inr tests'"
    and "shortIdLengthOf n = shortIdLengthOf n'"
    and "i < length tests" and "j < length tests'"
    and "planTestsBCH labels = Some plan" and "planTestsBCH labels' = Some plan'"
    and "generateScenario L (vmbTestCompiler L (u, r, d, labels, scn, add))
           (scenarioRequest (plan ! i)) = Generated p"
    and "generateScenario L (vmbTestCompiler L (u', r', d', labels', scn', add'))
           (scenarioRequest (plan' ! j)) = Generated p'"
    and "encodeTransaction L (transaction p) = encodeTransaction L (transaction p')"
    and "encodeTransactionOutputs L (sourceOutputs p)
           = encodeTransactionOutputs L (sourceOutputs p')"
  shows "shortId (tests ! i) = shortId (tests' ! j)"
proof -
  from vmbTests_nth [OF assms(1) assms(4)] assms(6,8)
  have a: "tests ! i = masterTestCase L u r (testCaseDescription (groupNameOf g) d (plan ! i))
           (shortIdLengthOf n) (plan ! i) p"
    by auto
  from vmbTests_nth [OF assms(2) assms(5)] assms(7,9)
  have b: "tests' ! j = masterTestCase L u' r' (testCaseDescription (groupNameOf g') d' (plan' ! j))
           (shortIdLengthOf n') (plan' ! j) p'"
    by auto
  show ?thesis
    by (simp add: a b masterTestCase_fields assms(3,10,11))
qed

lemma planTestsBCH_default:
  "planTestsBCH None =
     Some [\<lparr>mode = NonP2SH, sets = [(V2021, Nonstandard), (V2022, Nonstandard)]\<rparr>,
           \<lparr>mode = P2SH20, sets = [(V2021, Standard), (V2022, Standard)]\<rparr>]"
  by (simp add: planTestsBCH_def joinedLabels_def supportedTestSetOverridesBCH_def)

lemma planTestsBCH_invalid:
  "planTestsBCH (Some [''invalid'']) =
     Some [\<lparr>mode = NonP2SH, sets = [(V2021, Invalid), (V2022, Invalid)]\<rparr>,
           \<lparr>mode = P2SH20, sets = [(V2021, Invalid), (V2022, Invalid)]\<rparr>]"
  by (simp add: planTestsBCH_def joinedLabels_def supportedTestSetOverridesBCH_def)

lemma example_generation:
  "generateScenario exampleLibauth c (scenarioRequest \<lparr>mode = NonP2SH, sets = ss\<rparr>) =
     Generated \<lparr>transaction = [1, 2, 3, 4], sourceOutputs = [5, 6, 7], program_inputIndex = 0\<rparr>"
  "generateScenario exampleLibauth c (scenarioRequest \<lparr>mode = P2SH20, sets = ss\<rparr>) =
     Generated \<lparr>transaction = [4], sourceOutputs = [5, 6], program_inputIndex = 1\<rparr>"
  by (simp_all add: exampleLibauth_def scenarioRequest_def)

lemma example_encoders:
  "encodeTransaction exampleLibauth tx = tx"
  "encodeTransactionOutputs exampleLibauth outs = outs"
  "binToHex exampleLibauth b = concat (map (\<lambda>_. ''00'') b)"
  by (simp_all add: exampleLibauth_def)

lemma example_shortIds:
  "shortIdOf exampleLibauth [1, 2, 3, 4] [5, 6, 7] 5 = ''pqpqp''"
  "shortIdOf exampleLibauth [4] [5, 6] 5 = ''qpq''"
  by (simp_all add: shortIdOf_def exampleLibauth_def flattenBinArray_def slice0_def)

lemma example_run:
  "vmbTestDefinitionToVmbTests exampleLibauth (''<1>'', ''OP_DROP'', ''drops'', None, None, None)
     None None = Inr exampleTests"
  by (simp add: vmbTests_unfold planTestsBCH_default generateTestCase_def example_generation
        masterTestCase_def example_shortIds shortIdLengthOf_def defaultShortIdLength_def
        groupNameOf_def testCaseDescription_def exampleTests_def Let_def example_encoders)

lemma other_run:
  "vmbTestDefinitionToVmbTests exampleLibauth
     (''<2>'', ''OP_NIP'', ''other'', Some [''invalid''], None, None)
     (Some ''grp'') None = Inr otherTests"
  by (simp add: vmbTests_unfold planTestsBCH_invalid generateTestCase_def example_generation
        masterTestCase_def example_shortIds shortIdLengthOf_def defaultShortIdLength_def
        groupNameOf_def testCaseDescription_def otherTests_def Let_def example_encoders)

theorem one_test_per_plan_item_witness:
  "planTestsBCH None =
     Some [\<lparr>mode = NonP2SH, sets = [(V2021, Nonstandard), (V2022, Nonstandard)]\<rparr>,
           \<lparr>mode = P2SH20, sets = [(V2021, Standard), (V2022, Standard)]\<rparr>]
   \<and> (\<exists>tests.
        vmbTestDefinitionToVmbTests exampleLibauth
          (''<1>'', ''OP_DROP'', ''drops'', None, None, None) (Some ''group'') None = Inr tests
        \<and> length tests = 2
        \<and> testSets (tests ! 1) = [(V2021, Standard), (V2022, Standard)]
        \<and> testDescription (tests ! 1) = ''group: drops (P2SH20)'')"
proof -
  let ?plan = "[\<lparr>mode = NonP2SH, sets = [(V2021, Nonstandard), (V2022, Nonstandard)]\<rparr>,
           \<lparr>mode = P2SH20, sets = [(V2021, Standard), (V2022, Standard)]\<rparr>]"
  have ok: "\<forall>item\<in>set ?plan. \<exists>p.
       generateScenario exampleLibauth
         (vmbTestCompiler exampleLibauth (''<1>'', ''OP_DROP'', ''drops'', None, None, None))
         (scenarioRequest item) = Generated p"
    by (simp add: example_generation)
  from one_test_per_plan_item [OF planTestsBCH_default ok, of "Some ''group''" None]
  obtain tests where run: "vmbTestDefinitionToVmbTests exampleLibauth
          (''<1>'', ''OP_DROP'', ''drops'', None, None, None) (Some ''group'') None = Inr tests"
    and len: "length tests = length ?plan"
    and each: "\<forall>i<length ?plan.
          testSets (tests ! i) = sets (?plan ! i)
          \<and> testDescription (tests ! i) =
              groupNameOf (Some ''group'') @ '': '' @ ''drops'' @ '' (''
                @ plan_mode_string (mode (?plan ! i)) @ '')''"
    by blast
  from each [rule_format, of 1]
  have "testSets (tests ! 1) = [(V2021, Standard), (V2022, Standard)]
        \<and> testDescription (tests ! 1) = ''group: drops (P2SH20)''"
    by (simp add: groupNameOf_def)
  with run len planTestsBCH_default show ?thesis by auto
qed


theorem shortId_depends_on_encodings_only_witness:
  "vmbTestDefinitionToVmbTests exampleLibauth
     (''<1>'', ''OP_DROP'', ''drops'', None, None, None) None None = Inr exampleTests
   \<and> vmbTestDefinitionToVmbTests exampleLibauth
     (''<2>'', ''OP_NIP'', ''other'', Some [''invalid''], None, None) (Some ''grp'') None
       = Inr otherTests
   \<and> testDescription (exampleTests ! 1) \<noteq> testDescription (otherTests ! 1)
   \<and> testSets (exampleTests ! 1) \<noteq> testSets (otherTests ! 1)
   \<and> shortId (exampleTests ! 1) = shortId (otherTests ! 1)"
proof -
  let ?p = "\<lparr>transaction = [4], sourceOutputs = [5, 6], program_inputIndex = 1\<rparr>
              :: (bin, bin) program"
  have n: "shortIdLengthOf None = shortIdLengthOf None" by simp
  have i: "1 < length exampleTests" by (simp add: exampleTests_def)
  have j: "1 < length otherTests" by (simp add: otherTests_def)
  have g1: "generateScenario exampleLibauth
       (vmbTestCompiler exampleLibauth (''<1>'', ''OP_DROP'', ''drops'', None, None, None))
       (scenarioRequest
          ([\<lparr>mode = NonP2SH, sets = [(V2021, Nonstandard), (V2022, Nonstandard)]\<rparr>,
            \<lparr>mode = P2SH20, sets = [(V2021, Standard), (V2022, Standard)]\<rparr>] ! 1)) =
       Generated ?p"
    by (simp add: example_generation)
  have g2: "generateScenario exampleLibauth
       (vmbTestCompiler exampleLibauth
          (''<2>'', ''OP_NIP'', ''other'', Some [''invalid''], None, None))
       (scenarioRequest
          ([\<lparr>mode = NonP2SH, sets = [(V2021, Invalid), (V2022, Invalid)]\<rparr>,
            \<lparr>mode = P2SH20, sets = [(V2021, Invalid), (V2022, Invalid)]\<rparr>] ! 1)) =
       Generated ?p"
    by (simp add: example_generation)
  have e1: "encodeTransaction exampleLibauth (transaction ?p)
              = encodeTransaction exampleLibauth (transaction ?p)" by simp
  have e2: "encodeTransactionOutputs exampleLibauth (sourceOutputs ?p)
              = encodeTransactionOutputs exampleLibauth (sourceOutputs ?p)" by simp
  have d: "testDescription (exampleTests ! 1) \<noteq> testDescription (otherTests ! 1)"
    "testSets (exampleTests ! 1) \<noteq> testSets (otherTests ! 1)"
    by (simp_all add: exampleTests_def otherTests_def)
  from shortId_depends_on_encodings_only
    [OF example_run other_run n i j planTestsBCH_default planTestsBCH_invalid g1 g2 e1 e2]
    example_run other_run d
  show ?thesis by blast
qed

section \<open>Partitions, the template and the script\<close>

lemma partition_entry_iff:
  "(S, ws) \<in> set (vmbTestPartitionMasterTestList m)
     \<longleftrightarrow> ws \<noteq> [] \<and> ws = concat (map (copiesFor S) m)"
proof -
  have "(S, ws) \<in> set (vmbTestPartitionMasterTestList m)
     \<longleftrightarrow> map_of (vmbTestPartitionMasterTestList m) S = Some ws"
    using distinct_partition [of m] by simp
  then show ?thesis by (auto simp: partition_lookup)
qed

lemma set_copiesFor:
  "set (copiesFor S t) = (if S \<in> set (testSets t) then {withoutSets t} else {})"
  using count_list_0_iff [of "testSets t" S] by (auto simp: copiesFor_def)

lemma withoutSets_fields:
  "shortId (withoutSets t) = shortId t"
  "testDescription (withoutSets t) = testDescription t"
  "unlockingScriptAsm (withoutSets t) = unlockingScriptAsm t"
  "redeemOrLockingScriptAsm (withoutSets t) = redeemOrLockingScriptAsm t"
  "testTransactionHex (withoutSets t) = testTransactionHex t"
  "sourceOutputsHex (withoutSets t) = sourceOutputsHex t"
  "inputIndex (withoutSets t) = inputIndex t"
  by (simp_all add: withoutSets_def split: option.splits)

text \<open>
  The vectors generated from the static table never repeat a set id in their
  \<^verbatim>\<open>testSets\<close>.
\<close>

lemma generated_testSets_distinct:
  assumes "vmbTestDefinitionToVmbTests L (u, r, d, labels, scn, add) g n = Inr tests"
    and "t \<in> set tests"
  shows "distinct (testSets t)"
proof -
  from assms(2) obtain i where i: "i < length tests" and t: "t = tests ! i"
    by (auto simp: in_set_conv_nth)
  from vmbTests_nth [OF assms(1) i] obtain plan p where
    plan: "planTestsBCH labels = Some plan" and len: "length plan = length tests"
    and ti: "tests ! i = masterTestCase L u r (testCaseDescription (groupNameOf g) d (plan ! i))
           (shortIdLengthOf n) (plan ! i) p"
    by blast
  from plan have "(joinedLabels labels, plan) \<in> set supportedTestSetOverridesBCH"
    by (simp add: planTestsBCH_Some_iff)
  moreover from i len have "plan ! i \<in> set plan" by simp
  ultimately have "distinct (sets (plan ! i))" by (rule table_sets_distinct)
  with t ti show ?thesis by (simp add: masterTestCase_fields)
qed

text \<open>
  Claim C9: a generated test vector has no \<^verbatim>\<open>inputIndex\<close> element exactly when the
  \<^verbatim>\<open>inputIndex\<close> of the scenario's program is \<open>0\<close>, and otherwise its last
  element is that index. Every entry of a partitioned list is the stripped copy of a master
  entry that lists the set, and every master entry that lists a set has its stripped copy
  in the list of that set; the copy has an \<^verbatim>\<open>inputIndex\<close> exactly when the master
  entry has one, with the same value.
\<close>
theorem inputIndex_present_iff_nonzero:
  "(vmbTestDefinitionToVmbTests L (u, r, d, labels, scn, add) g n = Inr tests
      \<and> i < length tests \<longrightarrow>
      (\<exists>plan p. planTestsBCH labels = Some plan \<and> length plan = length tests
         \<and> generateScenario L (vmbTestCompiler L (u, r, d, labels, scn, add))
               (scenarioRequest (plan ! i)) = Generated p
         \<and> (inputIndex (tests ! i) = None \<longleftrightarrow> program_inputIndex p = 0)
         \<and> (program_inputIndex p \<noteq> 0 \<longrightarrow>
               inputIndex (tests ! i) = Some (program_inputIndex p))))
   \<and> ((S, ws) \<in> set (vmbTestPartitionMasterTestList m) \<and> w \<in> set ws \<longrightarrow>
        (\<exists>t\<in>set m. S \<in> set (testSets t) \<and> w = withoutSets t
           \<and> inputIndex w = inputIndex t))
   \<and> (t \<in> set m \<and> S \<in> set (testSets t) \<longrightarrow>
        (\<exists>ws. (S, ws) \<in> set (vmbTestPartitionMasterTestList m)
           \<and> withoutSets t \<in> set ws
           \<and> inputIndex (withoutSets t) = inputIndex t))"
proof (intro conjI impI)
  assume "vmbTestDefinitionToVmbTests L (u, r, d, labels, scn, add) g n = Inr tests
      \<and> i < length tests"
  then have run: "vmbTestDefinitionToVmbTests L (u, r, d, labels, scn, add) g n = Inr tests"
    and i: "i < length tests" by simp_all
  from vmbTests_nth [OF run i]
  show "\<exists>plan p. planTestsBCH labels = Some plan \<and> length plan = length tests
         \<and> generateScenario L (vmbTestCompiler L (u, r, d, labels, scn, add))
               (scenarioRequest (plan ! i)) = Generated p
         \<and> (inputIndex (tests ! i) = None \<longleftrightarrow> program_inputIndex p = 0)
         \<and> (program_inputIndex p \<noteq> 0 \<longrightarrow>
               inputIndex (tests ! i) = Some (program_inputIndex p))"
    by (auto simp: masterTestCase_fields)
next
  assume "(S, ws) \<in> set (vmbTestPartitionMasterTestList m) \<and> w \<in> set ws"
  then have "w \<in> set (concat (map (copiesFor S) m))"
    by (auto simp: partition_entry_iff)
  then obtain t where "t \<in> set m" "w \<in> set (copiesFor S t)" by auto
  then show "\<exists>t\<in>set m. S \<in> set (testSets t) \<and> w = withoutSets t
           \<and> inputIndex w = inputIndex t"
    by (auto simp: set_copiesFor withoutSets_fields split: if_splits)
next
  assume a: "t \<in> set m \<and> S \<in> set (testSets t)"
  let ?ws = "concat (map (copiesFor S) m)"
  from a have "withoutSets t \<in> set ?ws"
    by (auto simp: set_copiesFor)
  moreover then have "?ws \<noteq> []" by (metis empty_iff empty_set)
  ultimately show "\<exists>ws. (S, ws) \<in> set (vmbTestPartitionMasterTestList m)
           \<and> withoutSets t \<in> set ws
           \<and> inputIndex (withoutSets t) = inputIndex t"
    by (auto simp: partition_entry_iff withoutSets_fields)
qed

text \<open>
  Claim C2, amended: for every master test list in which no entry repeats a set id in its
  \<^verbatim>\<open>testSets\<close>, \<^verbatim>\<open>vmbTestPartitionMasterTestList\<close> maps each set id to the list
  of the master entries whose \<^verbatim>\<open>testSets\<close> contains it, in the order of the master
  list, each without its \<^verbatim>\<open>testSets\<close> and with every other field unchanged; a set id
  that no entry lists is absent, and no set id has two lists.
\<close>
theorem partition_groups_by_set:
  assumes "\<forall>t\<in>set m. distinct (testSets t)"
  shows "map_of (vmbTestPartitionMasterTestList m) S =
      (if \<exists>t\<in>set m. S \<in> set (testSets t)
       then Some (map withoutSets (filter (\<lambda>t. S \<in> set (testSets t)) m))
       else None)
    \<and> distinct (map fst (vmbTestPartitionMasterTestList m))
    \<and> shortId (withoutSets e) = shortId e
    \<and> testDescription (withoutSets e) = testDescription e
    \<and> unlockingScriptAsm (withoutSets e) = unlockingScriptAsm e
    \<and> redeemOrLockingScriptAsm (withoutSets e) = redeemOrLockingScriptAsm e
    \<and> testTransactionHex (withoutSets e) = testTransactionHex e
    \<and> sourceOutputsHex (withoutSets e) = sourceOutputsHex e
    \<and> inputIndex (withoutSets e) = inputIndex e"
proof -
  have c: "concat (map (copiesFor S) m)
      = map withoutSets (filter (\<lambda>t. S \<in> set (testSets t)) m)"
    using assms by (intro concat_copies_distinct) simp
  have "(filter (\<lambda>t. S \<in> set (testSets t)) m = []) \<longleftrightarrow> \<not> (\<exists>t\<in>set m. S \<in> set (testSets t))"
    by (auto simp: filter_empty_conv)
  then have "map_of (vmbTestPartitionMasterTestList m) S =
      (if \<exists>t\<in>set m. S \<in> set (testSets t)
       then Some (map withoutSets (filter (\<lambda>t. S \<in> set (testSets t)) m))
       else None)"
    by (simp add: partition_lookup c)
  then show ?thesis
    by (simp add: distinct_partition withoutSets_fields)
qed

text \<open>
  As stated for every master list, claim C2 fails: an entry that lists a set twice is
  appended twice to the list of that set.
\<close>

theorem partition_repeated_set_counterexample:
  "map_of (vmbTestPartitionMasterTestList [repeatedSetExample]) (V2021, Invalid)
     = Some [withoutSets repeatedSetExample, withoutSets repeatedSetExample]
   \<and> map_of (vmbTestPartitionMasterTestList [repeatedSetExample]) (V2021, Invalid)
     \<noteq> Some (map withoutSets
               (filter (\<lambda>t. (V2021, Invalid) \<in> set (testSets t)) [repeatedSetExample]))"
  by (simp add: partition_lookup copiesFor_def repeatedSetExample_def)

theorem partition_groups_by_set_witness:
  "distinct (testSets masterExample) \<and> distinct (testSets (exampleTests ! 0))
   \<and> map_of (vmbTestPartitionMasterTestList [masterExample, exampleTests ! 0, masterExample])
        (Chip_loops, Standard)
      = Some [withoutSets masterExample, withoutSets masterExample]
   \<and> map_of (vmbTestPartitionMasterTestList [masterExample, exampleTests ! 0, masterExample])
        (V2022, Nonstandard)
      = Some [withoutSets (exampleTests ! 0)]
   \<and> map_of (vmbTestPartitionMasterTestList [masterExample, exampleTests ! 0, masterExample])
        (V2022, Standard) = None"
proof -
  let ?m = "[masterExample, exampleTests ! 0, masterExample]"
  have h: "\<forall>t\<in>set ?m. distinct (testSets t)"
    by (simp add: masterExample_def exampleTests_def)
  have d: "distinct (testSets masterExample) \<and> distinct (testSets (exampleTests ! 0))"
    by (simp add: masterExample_def exampleTests_def)
  from partition_groups_by_set [OF h, of "(Chip_loops, Standard)"]
       partition_groups_by_set [OF h, of "(V2022, Nonstandard)"]
       partition_groups_by_set [OF h, of "(V2022, Standard)"] d
  show ?thesis
    by (simp add: masterExample_def exampleTests_def)
qed

lemma generateTestCase_other_compiler:
  assumes "gen' c (scenarioRequest item) = generateScenario L c (scenarioRequest item)"
  shows "generateTestCase (L\<lparr>generateScenario := gen'\<rparr>) c u r d g n item
           = generateTestCase L c u r d g n item"
proof -
  have "masterTestCase (L\<lparr>generateScenario := gen'\<rparr>) u r descr n item p
          = masterTestCase L u r descr n item p" for descr p
    by (simp add: masterTestCase_def shortIdOf_def Let_def)
  with assms show ?thesis
    by (simp add: generateTestCase_def Let_def split: scenario_generation.splits)
qed

lemma planned_request_id:
  assumes "planTestsBCH labels = Some plan" and "item \<in> set plan"
  shows "unlockingScriptId (scenarioRequest item) = ''unlockStandard''
           \<or> unlockingScriptId (scenarioRequest item) = ''unlockP2sh20''"
proof -
  from assms(1) have "(joinedLabels labels, plan) \<in> set supportedTestSetOverridesBCH"
    by (simp add: planTestsBCH_Some_iff)
  from table_modes [OF this assms(2)] show ?thesis
    by (auto simp: scenarioRequest_def)
qed

text \<open>
  Claim C10: every plan of the table uses the modes nonP2SH and P2SH20 only. The script id
  \<^verbatim>\<open>unlockP2sh32\<close> is the one selected for mode P2SH32 and for no other mode; the
  template defines it only if the additional scripts of the definition do. No request of a
  resolved plan carries it, and the result of \<^verbatim>\<open>vmbTestDefinitionToVmbTests\<close> is the
  same for any two compilers that agree on all requests for other script ids.
\<close>
theorem unlockP2sh32_never_requested:
  "((k, plan) \<in> set supportedTestSetOverridesBCH \<and> item \<in> set plan \<longrightarrow>
       mode item = NonP2SH \<or> mode item = P2SH20)
   \<and> (unlockingScriptIdOf md = ''unlockP2sh32'' \<longleftrightarrow> md = P2SH32)
   \<and> scripts (vmbTestTemplate s (u, r, d, labels, scn, add)) ''unlockP2sh32''
       = spread add ''unlockP2sh32''
   \<and> (planTestsBCH labels = Some plan' \<and> item' \<in> set plan' \<longrightarrow>
       unlockingScriptId (scenarioRequest item') \<noteq> ''unlockP2sh32'')
   \<and> ((\<forall>c request. unlockingScriptId request \<noteq> ''unlockP2sh32'' \<longrightarrow>
          gen' c request = generateScenario L c request) \<longrightarrow>
       vmbTestDefinitionToVmbTests (L\<lparr>generateScenario := gen'\<rparr>)
          (u, r, d, labels, scn, add) g n
        = vmbTestDefinitionToVmbTests L (u, r, d, labels, scn, add) g n)"
proof (intro conjI impI)
  assume "(k, plan) \<in> set supportedTestSetOverridesBCH \<and> item \<in> set plan"
  then show "mode item = NonP2SH \<or> mode item = P2SH20"
    using table_modes [of k plan item] by simp
next
  show "unlockingScriptIdOf md = ''unlockP2sh32'' \<longleftrightarrow> md = P2SH32"
    by (cases md) simp_all
next
  show "scripts (vmbTestTemplate s (u, r, d, labels, scn, add)) ''unlockP2sh32''
       = spread add ''unlockP2sh32''"
    by (simp add: vmbTestTemplate_def builtinScripts_def map_add_def)
next
  assume "planTestsBCH labels = Some plan' \<and> item' \<in> set plan'"
  then show "unlockingScriptId (scenarioRequest item') \<noteq> ''unlockP2sh32''"
    using planned_request_id [of labels plan' item'] by auto
next
  assume agree: "\<forall>c request. unlockingScriptId request \<noteq> ''unlockP2sh32'' \<longrightarrow>
          gen' c request = generateScenario L c request"
  let ?L' = "L\<lparr>generateScenario := gen'\<rparr>"
  let ?def = "(u, r, d, labels, scn, add)"
  have cmp: "vmbTestCompiler ?L' ?def = vmbTestCompiler L ?def"
    by (simp add: vmbTestCompiler_def)
  show "vmbTestDefinitionToVmbTests ?L' ?def g n = vmbTestDefinitionToVmbTests L ?def g n"
  proof (cases "planTestsBCH labels")
    case None
    then show ?thesis by (simp add: vmbTests_unfold)
  next
    case (Some p)
    have "generateTestCase ?L' (vmbTestCompiler L ?def) u r d (groupNameOf g)
            (shortIdLengthOf n) x
          = generateTestCase L (vmbTestCompiler L ?def) u r d (groupNameOf g)
            (shortIdLengthOf n) x"
      if "x \<in> set p" for x
    proof (rule generateTestCase_other_compiler)
      from planned_request_id [OF Some that]
      have "unlockingScriptId (scenarioRequest x) \<noteq> ''unlockP2sh32''" by auto
      with agree show "gen' (vmbTestCompiler L ?def) (scenarioRequest x)
          = generateScenario L (vmbTestCompiler L ?def) (scenarioRequest x)"
        by blast
    qed
    then show ?thesis
      using Some cmp by (simp add: vmbTests_unfold cong: mapThrowing_cong)
  qed
qed

text \<open>
  Claim C7: whatever the additional scripts of a definition are, the template from which
  the compiler is created holds the nine built-in script entries; \<^verbatim>\<open>lockP2sh20\<close> and
  \<^verbatim>\<open>lockStandard\<close> hold the definition's \<^verbatim>\<open>redeemOrLockingScript\<close>,
  \<^verbatim>\<open>unlockP2sh20\<close> and \<^verbatim>\<open>unlockStandard\<close> its \<^verbatim>\<open>unlockingScript\<close>.
\<close>
theorem builtin_scripts_always_present:
  "scripts (vmbTestTemplate s (u, r, d, labels, scn, add)) ''lockEmptyP2sh20''
     = Some \<lparr>lockingType = Some ''p2sh20'', script = '''', unlocks = None\<rparr>
   \<and> scripts (vmbTestTemplate s (u, r, d, labels, scn, add)) ''lockP2pkh''
     = Some \<lparr>lockingType = Some ''standard'',
         script = ''OP_DUP OP_HASH160 <$(<key1.public_key> OP_HASH160)> OP_EQUALVERIFY OP_CHECKSIG'',
         unlocks = None\<rparr>
   \<and> scripts (vmbTestTemplate s (u, r, d, labels, scn, add)) ''lockP2sh20''
     = Some \<lparr>lockingType = Some ''p2sh20'', script = r, unlocks = None\<rparr>
   \<and> scripts (vmbTestTemplate s (u, r, d, labels, scn, add)) ''lockStandard''
     = Some \<lparr>lockingType = Some ''standard'', script = r, unlocks = None\<rparr>
   \<and> scripts (vmbTestTemplate s (u, r, d, labels, scn, add)) ''unlockEmptyP2sh20''
     = Some \<lparr>lockingType = None, script = ''<1>'', unlocks = Some ''lockEmptyP2sh20''\<rparr>
   \<and> scripts (vmbTestTemplate s (u, r, d, labels, scn, add)) ''unlockP2pkh''
     = Some \<lparr>lockingType = None,
         script = ''<key1.schnorr_signature.corresponding_output_single_input> <key1.public_key>'',
         unlocks = Some ''lockP2pkh''\<rparr>
   \<and> scripts (vmbTestTemplate s (u, r, d, labels, scn, add)) ''unlockP2sh20''
     = Some \<lparr>lockingType = None, script = u, unlocks = Some ''lockP2sh20''\<rparr>
   \<and> scripts (vmbTestTemplate s (u, r, d, labels, scn, add)) ''unlockStandard''
     = Some \<lparr>lockingType = None, script = u, unlocks = Some ''lockStandard''\<rparr>
   \<and> scripts (vmbTestTemplate s (u, r, d, labels, scn, add)) ''vmbTestNullData''
     = Some \<lparr>lockingType = Some ''standard'',
         script = ''OP_RETURN <'' @ [CHR 0x22] @ ''vmb_test'' @ [CHR 0x22] @ ''>'',
         unlocks = None\<rparr>
   \<and> vmbTestCompiler L (u, r, d, labels, scn, add)
     = createCompilerBCH L
         (authenticationTemplateToCompilerConfiguration L
            (vmbTestTemplate (slot1Scenario L) (u, r, d, labels, scn, add)))"
  by (simp add: vmbTestTemplate_def builtinScripts_def map_add_def vmbTestCompiler_def)




lemma partition_exampleTests:
  "vmbTestPartitionMasterTestList exampleTests =
     [((V2021, Nonstandard), [withoutSets (exampleTests ! 0)]),
      ((V2022, Nonstandard), [withoutSets (exampleTests ! 0)]),
      ((V2021, Standard), [withoutSets (exampleTests ! 1)]),
      ((V2022, Standard), [withoutSets (exampleTests ! 1)])]"
  by (simp add: vmbTestPartitionMasterTestList_def addToTestSet_def testsOfSet_def
        exampleTests_def)

theorem inputIndex_present_iff_nonzero_witness:
  "vmbTestDefinitionToVmbTests exampleLibauth
     (''<1>'', ''OP_DROP'', ''drops'', None, None, None) None None = Inr exampleTests
   \<and> inputIndex (exampleTests ! 0) = None
   \<and> inputIndex (exampleTests ! 1) = Some 1
   \<and> (\<exists>plan p. planTestsBCH None = Some plan \<and> length plan = length exampleTests
        \<and> generateScenario exampleLibauth
              (vmbTestCompiler exampleLibauth (''<1>'', ''OP_DROP'', ''drops'', None, None, None))
              (scenarioRequest (plan ! 1)) = Generated p
        \<and> program_inputIndex p = 1)
   \<and> ((V2021, Standard), [withoutSets (exampleTests ! 1)])
        \<in> set (vmbTestPartitionMasterTestList exampleTests)
   \<and> (\<exists>t\<in>set exampleTests. withoutSets (exampleTests ! 1) = withoutSets t
         \<and> inputIndex (withoutSets (exampleTests ! 1)) = inputIndex t)
   \<and> (\<exists>ws. ((V2021, Standard), ws) \<in> set (vmbTestPartitionMasterTestList exampleTests)
         \<and> withoutSets (exampleTests ! 1) \<in> set ws
         \<and> inputIndex (withoutSets (exampleTests ! 1)) = inputIndex (exampleTests ! 1))"
proof -
  have i: "1 < length exampleTests" by (simp add: exampleTests_def)
  have e: "((V2021, Standard), [withoutSets (exampleTests ! 1)])
        \<in> set (vmbTestPartitionMasterTestList exampleTests)"
    by (simp add: partition_exampleTests)
  have x: "inputIndex (exampleTests ! 0) = None" "inputIndex (exampleTests ! 1) = Some 1"
    by (simp_all add: exampleTests_def)
  have t: "exampleTests ! 1 \<in> set exampleTests
      \<and> (V2021, Standard) \<in> set (testSets (exampleTests ! 1))"
    by (simp add: exampleTests_def)
  note T = inputIndex_present_iff_nonzero
    [where L = exampleLibauth and u = "''<1>''" and r = "''OP_DROP''" and d = "''drops''"
       and labels = None and scn = None and add = None and g = None and n = None
       and tests = exampleTests and i = 1 and S = "(V2021, Standard)"
       and ws = "[withoutSets (exampleTests ! 1)]" and w = "withoutSets (exampleTests ! 1)"
       and m = exampleTests and t = "exampleTests ! 1"]
  have A: "\<exists>plan p. planTestsBCH None = Some plan \<and> length plan = length exampleTests
         \<and> generateScenario exampleLibauth
               (vmbTestCompiler exampleLibauth (''<1>'', ''OP_DROP'', ''drops'', None, None, None))
               (scenarioRequest (plan ! 1)) = Generated p
         \<and> (inputIndex (exampleTests ! 1) = None \<longleftrightarrow> program_inputIndex p = 0)
         \<and> (program_inputIndex p \<noteq> 0 \<longrightarrow>
               inputIndex (exampleTests ! 1) = Some (program_inputIndex p))"
    using T [THEN conjunct1, rule_format, OF conjI [OF example_run i]] .
  have first: "\<exists>plan p. planTestsBCH None = Some plan
        \<and> length plan = length exampleTests
        \<and> generateScenario exampleLibauth
              (vmbTestCompiler exampleLibauth (''<1>'', ''OP_DROP'', ''drops'', None, None, None))
              (scenarioRequest (plan ! 1)) = Generated p
        \<and> program_inputIndex p = 1"
    using A x(2) by auto
  have second: "\<exists>t\<in>set exampleTests. withoutSets (exampleTests ! 1) = withoutSets t
         \<and> inputIndex (withoutSets (exampleTests ! 1)) = inputIndex t"
    using T [THEN conjunct2, THEN conjunct1, rule_format, of ] e by auto
  have third: "\<exists>ws. ((V2021, Standard), ws)
           \<in> set (vmbTestPartitionMasterTestList exampleTests)
         \<and> withoutSets (exampleTests ! 1) \<in> set ws
         \<and> inputIndex (withoutSets (exampleTests ! 1)) = inputIndex (exampleTests ! 1)"
    using T [THEN conjunct2, THEN conjunct2, rule_format, OF t] .
  from example_run x first e second third show ?thesis by blast
qed

theorem unlockP2sh32_never_requested_witness:
  "planTestsBCH None =
     Some [\<lparr>mode = NonP2SH, sets = [(V2021, Nonstandard), (V2022, Nonstandard)]\<rparr>,
           \<lparr>mode = P2SH20, sets = [(V2021, Standard), (V2022, Standard)]\<rparr>]
   \<and> unlockingScriptId
        (scenarioRequest \<lparr>mode = P2SH20, sets = [(V2021, Standard), (V2022, Standard)]\<rparr>)
       \<noteq> ''unlockP2sh32''
   \<and> vmbTestDefinitionToVmbTests
        (exampleLibauth\<lparr>generateScenario := \<lambda>c request.
            if unlockingScriptId request = ''unlockP2sh32''
            then ScenarioError ''unknown script''
            else generateScenario exampleLibauth c request\<rparr>)
        (''<1>'', ''OP_DROP'', ''drops'', None, None, None) None None
      = Inr exampleTests"
proof -
  let ?item = "\<lparr>mode = P2SH20, sets = [(V2021, Standard), (V2022, Standard)]\<rparr>"
  let ?plan = "[\<lparr>mode = NonP2SH, sets = [(V2021, Nonstandard), (V2022, Nonstandard)]\<rparr>, ?item]"
  let ?gen = "\<lambda>c request.
            if unlockingScriptId request = ''unlockP2sh32''
            then ScenarioError ''unknown script''
            else generateScenario exampleLibauth c request"
  have a: "\<forall>c request. unlockingScriptId request \<noteq> ''unlockP2sh32'' \<longrightarrow>
          ?gen c request = generateScenario exampleLibauth c request"
    by simp
  have b: "planTestsBCH None = Some ?plan \<and> ?item \<in> set ?plan"
    by (simp add: planTestsBCH_default)
  from unlockP2sh32_never_requested
    [where L = exampleLibauth and u = "''<1>''" and r = "''OP_DROP''" and d = "''drops''"
       and labels = None and scn = None and add = None and g = None and n = None
       and gen' = ?gen and plan' = ?plan and item' = ?item]
    a b example_run
  show ?thesis by simp
qed

end
